theory Spec2Isabelle
  imports Main "HOL-Library.Word" "HOL-Library.AList"
begin

section \<open>Python values\<close>

text \<open>
  The values that \<^verbatim>\<open>json.loads\<close> produces and that \<^verbatim>\<open>json.dumps\<close> consumes: \<^verbatim>\<open>None\<close>,
  booleans, integers, strings, lists and dictionaries with string keys. A dictionary is an
  association list in insertion order. Numbers with a fraction are left out: no operation
  of the client looks at one. Strings are lists of 8-bit characters.
\<close>

datatype pyval =
    PyNone
  | PyBool bool
  | PyInt int
  | PyStr string
  | PyList "pyval list"
  | PyDict "(string \<times> pyval) list"

text \<open>Truth value testing, as \<^verbatim>\<open>if x:\<close> does it.\<close>

fun truthy :: "pyval \<Rightarrow> bool" where
  "truthy PyNone = False"
| "truthy (PyBool b) = b"
| "truthy (PyInt i) = (i \<noteq> 0)"
| "truthy (PyStr s) = (s \<noteq> [])"
| "truthy (PyList xs) = (xs \<noteq> [])"
| "truthy (PyDict kvs) = (kvs \<noteq> [])"

text \<open>\<^verbatim>\<open>d.get(k, default)\<close> on a dictionary.\<close>

definition dict_get :: "(string \<times> pyval) list \<Rightarrow> string \<Rightarrow> pyval \<Rightarrow> pyval" where
  "dict_get d k dflt = (case map_of d k of None \<Rightarrow> dflt | Some v \<Rightarrow> v)"

text \<open>\<^verbatim>\<open>str(n)\<close> for an integer: decimal digits, a minus sign for a negative number.\<close>

definition digit_char :: "nat \<Rightarrow> char" where
  "digit_char n = ''0123456789'' ! n"

fun str_nat :: "nat \<Rightarrow> string" where
  "str_nat n = (if n < 10 then [digit_char n] else str_nat (n div 10) @ [digit_char (n mod 10)])"

declare str_nat.simps [simp del]

definition str_int :: "int \<Rightarrow> string" where
  "str_int i = (if i < 0 then CHR ''-'' # str_nat (nat (- i)) else str_nat (nat i))"

text \<open>
  \<^verbatim>\<open>str(v)\<close>, which an f-string applies to the value it interpolates. The text of a list or
  a dictionary is its \<^verbatim>\<open>repr\<close>, a function of the Python library taken as the parameter
  \<open>repr\<close>.
\<close>

fun py_str :: "(pyval \<Rightarrow> string) \<Rightarrow> pyval \<Rightarrow> string" where
  "py_str repr PyNone = ''None''"
| "py_str repr (PyBool b) = (if b then ''True'' else ''False'')"
| "py_str repr (PyInt i) = str_int i"
| "py_str repr (PyStr s) = s"
| "py_str repr (PyList xs) = repr (PyList xs)"
| "py_str repr (PyDict kvs) = repr (PyDict kvs)"

text \<open>\<^verbatim>\<open>sep.join(parts)\<close>.\<close>

fun join :: "string \<Rightarrow> string list \<Rightarrow> string" where
  "join sep [] = []"
| "join sep [p] = p"
| "join sep (p # q # ps) = p @ sep @ join sep (q # ps)"

section \<open>Error handling\<close>

datatype ErrorOrigin = LOCAL | SERVER | NETWORK

fun origin_value :: "ErrorOrigin \<Rightarrow> string" where
  "origin_value LOCAL = ''local''"
| "origin_value SERVER = ''server''"
| "origin_value NETWORK = ''network''"

text \<open>
  The dataclass \<^verbatim>\<open>CLIError\<close>. The annotations of \<^verbatim>\<open>message\<close>, \<^verbatim>\<open>code\<close>, \<^verbatim>\<open>detail\<close> and
  \<^verbatim>\<open>field\<close> say \<^verbatim>\<open>str\<close>, but Python does not enforce them and \<^verbatim>\<open>_request\<close> stores
  whatever the error body holds, so the fields are Python values; \<open>PyNone\<close> is the
  default \<^verbatim>\<open>None\<close>.
\<close>

record CLIError =
  origin :: ErrorOrigin
  message :: pyval
  code :: pyval
  detail :: pyval
  field :: pyval
  http_status :: "int option"

definition status_truthy :: "int option \<Rightarrow> bool" where
  "status_truthy s = (case s of None \<Rightarrow> False | Some n \<Rightarrow> n \<noteq> 0)"

definition status_str :: "int option \<Rightarrow> string" where
  "status_str s = (case s of None \<Rightarrow> ''None'' | Some n \<Rightarrow> str_int n)"

definition newline :: string where
  "newline = [CHR 0x0A]"

definition format :: "(pyval \<Rightarrow> string) \<Rightarrow> CLIError \<Rightarrow> string" where
  "format repr e =
     join newline
       ([''['' @ origin_value (origin e) @ ''] '' @ py_str repr (message e)]
        @ (if truthy (code e) then [''  code: '' @ py_str repr (code e)] else [])
        @ (if status_truthy (http_status e)
           then [''  http_status: '' @ status_str (http_status e)] else [])
        @ (if truthy (detail e) then [''  detail: '' @ py_str repr (detail e)] else [])
        @ (if truthy (field e) then [''  field: '' @ py_str repr (field e)] else []))"

text \<open>
  How a call ends without returning: \<^verbatim>\<open>die\<close> prints the error and raises
  \<^verbatim>\<open>SystemExit(1)\<close>, which nothing in the program catches; any other exception that no
  handler catches ends the process with a traceback. The printing is done where the
  process ends, in \<open>main\<close>.
\<close>

datatype halt = Died CLIError | Uncaught string

definition die :: "CLIError \<Rightarrow> halt + 'a" where
  "die err = Inl (Died err)"

definition die_local :: "string \<Rightarrow> pyval \<Rightarrow> halt + 'a" where
  "die_local msg dtl =
     die \<lparr>origin = LOCAL, message = PyStr msg, code = PyNone, detail = dtl,
          field = PyNone, http_status = None\<rparr>"

section \<open>The environment of the process\<close>

type_synonym byte = "8 word"

text \<open>
  What \<^verbatim>\<open>Path.read_bytes\<close> does on a path: it returns the bytes, or raises
  \<^verbatim>\<open>PermissionError\<close>, or another \<^verbatim>\<open>OSError\<close> whose \<^verbatim>\<open>str\<close> is carried along.
\<close>

datatype read_outcome = Bytes "byte list" | PermissionError | OSError string

text \<open>
  What \<^verbatim>\<open>Path.exists\<close> and \<^verbatim>\<open>Path.is_file\<close> do on a path: they answer, or they raise.
  Both call \<^verbatim>\<open>stat\<close> and turn into \<^verbatim>\<open>False\<close> only the errors that say that there is no
  such entry; any other \<^verbatim>\<open>OSError\<close> is raised again, for instance the
  \<^verbatim>\<open>PermissionError\<close> for a path in a directory that may not be searched and the
  \<^verbatim>\<open>OSError\<close> for a name that is too long. The class of the exception is carried along.
\<close>

datatype stat_outcome = Answer bool | StatRaises string

text \<open>
  What the file system does for one path: the outcomes of \<^verbatim>\<open>Path.exists\<close>, of
  \<^verbatim>\<open>Path.is_file\<close> and of reading it. The three are independent observations, as they are
  three calls in the source.
\<close>

record fnode =
  node_exists :: stat_outcome
  node_is_file :: stat_outcome
  node_read :: read_outcome

record http_request =
  req_method :: string
  req_url :: string
  req_headers :: "(string \<times> string) list"
  req_data :: "string option"

text \<open>
  How \<^verbatim>\<open>urlopen(req, timeout=t)\<close> together with the reading of the body ends.
  \<^item> \<open>Response p\<close>: a success status; \<open>p\<close> is what \<^verbatim>\<open>json.loads(resp.read())\<close> gives,
    \<open>None\<close> when it raises.
  \<^item> \<open>HTTPError c r p\<close>: \<^verbatim>\<open>urllib.error.HTTPError\<close> with \<^verbatim>\<open>e.code = c\<close> and
    \<^verbatim>\<open>str(e.reason) = r\<close>; \<open>p\<close> is what \<^verbatim>\<open>json.loads(e.read())\<close> gives, \<open>None\<close> when it
    raises.
  \<^item> \<open>URLError k r\<close>: a \<^verbatim>\<open>urllib.error.URLError\<close> that is not an \<^verbatim>\<open>HTTPError\<close>, with
    \<^verbatim>\<open>str(e.reason) = r\<close>; \<open>k\<close> is the kind of \<^verbatim>\<open>e.reason\<close>. The library wraps every
    \<^verbatim>\<open>OSError\<close> that is raised while it connects and sends the request in a
    \<^verbatim>\<open>URLError\<close>, also the \<^verbatim>\<open>TimeoutError\<close> of a connection that is not made within
    the timeout: that one is \<open>URLError TimedOut r\<close>.
  \<^item> \<open>TimeoutError\<close>: the timeout ran out while the program waited for the response or
    read it, and the \<^verbatim>\<open>TimeoutError\<close> reaches the handlers of \<^verbatim>\<open>_request\<close> as such.
  \<^item> \<open>OtherException n\<close>: an exception of a class \<open>n\<close> that none of the three handlers
    names.
\<close>

datatype url_reason = TimedOut | OtherReason

datatype urlopen_outcome =
    Response "pyval option"
  | HTTPError int string "pyval option"
  | URLError url_reason string
  | TimeoutError
  | OtherException string

text \<open>
  Everything the program reads from outside, and the functions of the Python library
  whose text output the claims do not look into: the environment variables, the text
  that \<^verbatim>\<open>os.path.expanduser\<close> puts for the leading \<^verbatim>\<open>~\<close>, the file system, the decoding
  that \<^verbatim>\<open>Path.read_text\<close> applies to the bytes of a file (\<open>None\<close> when it raises), the
  network, \<^verbatim>\<open>json.dumps(v)\<close>, \<^verbatim>\<open>json.dumps(v, indent=2, ensure_ascii=False)\<close> and
  \<^verbatim>\<open>repr\<close>; and what the process writes to: whether \<^verbatim>\<open>print\<close> gets a text written to
  standard output and to standard error or raises (standard output raises
  \<^verbatim>\<open>UnicodeEncodeError\<close> for a text that its encoding does not have, such as a lone
  surrogate), and the text that the interpreter leaves on standard error when an
  exception of a given class is caught nowhere.
\<close>

datatype write_outcome = Written | WriteRaises string

record world =
  environ :: "string \<Rightarrow> string option"
  home :: string
  fs :: "string \<Rightarrow> fnode"
  decode_text :: "byte list \<Rightarrow> string option"
  urlopen :: "http_request \<Rightarrow> nat \<Rightarrow> urlopen_outcome"
  json_dumps :: "pyval \<Rightarrow> string"
  json_dumps_indent :: "pyval \<Rightarrow> string"
  py_repr :: "pyval \<Rightarrow> string"
  stdout_write :: "string \<Rightarrow> write_outcome"
  stderr_write :: "string \<Rightarrow> write_outcome"
  py_traceback :: "string \<Rightarrow> string"

text \<open>
  The effects a claim speaks of, in the order they happen: the base64 encoding of the
  document and the network call with the request it sends.
\<close>

datatype event = Base64Encode | UrlOpen http_request

section \<open>Configuration\<close>

definition API_BASE :: string where
  "API_BASE = ''https://agentic-letters.com/api''"

definition ENV_FILE :: "world \<Rightarrow> string" where
  "ENV_FILE w = home w @ ''/.openclaw/secrets/agentic_letters.env''"

definition ENV_VAR :: string where
  "ENV_VAR = ''AGENTIC_LETTERS_API_KEY''"

section \<open>API client\<close>

definition headers :: "string \<Rightarrow> (string \<times> string) list" where
  "headers api_key =
     [(''Authorization'', ''Bearer '' @ api_key),
      (''Content-Type'', ''application/json''),
      (''User-Agent'', ''agentic-letters-skill/1.0'')]"

text \<open>
  The handler of \<^verbatim>\<open>HTTPError\<close> in \<^verbatim>\<open>_request\<close>. When the body did not parse, the first
  \<^verbatim>\<open>die\<close> ends the call. Otherwise \<^verbatim>\<open>error_body.get\<close> is called on what was parsed:
  a dictionary answers, any other value has no attribute \<^verbatim>\<open>get\<close> and the
  \<^verbatim>\<open>AttributeError\<close> leaves the handler uncaught.
\<close>

definition on_http_error :: "int \<Rightarrow> string \<Rightarrow> pyval option \<Rightarrow> halt + pyval" where
  "on_http_error c reason parsed =
     (case parsed of
        None \<Rightarrow>
          die \<lparr>origin = SERVER,
               message = PyStr (''HTTP '' @ str_int c @ '' with non-JSON response''),
               code = PyNone, detail = PyStr reason, field = PyNone,
               http_status = Some c\<rparr>
      | Some (PyDict error_body) \<Rightarrow>
          die \<lparr>origin = SERVER,
               message = dict_get error_body ''error'' (PyStr (''HTTP '' @ str_int c)),
               code = dict_get error_body ''code'' PyNone,
               detail = dict_get error_body ''detail'' PyNone,
               field = dict_get error_body ''field'' PyNone,
               http_status = Some c\<rparr>
      | Some _ \<Rightarrow> Inl (Uncaught ''AttributeError''))"

text \<open>
  \<^verbatim>\<open>_request\<close>: \<open>build_request\<close> is its first three lines, \<open>request\<close> the call and the
  handlers. The handlers are tried in the order of the source: \<^verbatim>\<open>HTTPError\<close> (a
  subclass of \<^verbatim>\<open>URLError\<close>), \<^verbatim>\<open>URLError\<close>, \<^verbatim>\<open>TimeoutError\<close>. A success body that does not
  parse raises \<^verbatim>\<open>JSONDecodeError\<close> inside the \<^verbatim>\<open>try\<close>, which no handler names.
\<close>

definition build_request ::
  "world \<Rightarrow> string \<Rightarrow> string \<Rightarrow> string \<Rightarrow> pyval \<Rightarrow> http_request" where
  "build_request w api_key method path body =
     (let url = API_BASE @ path;
          data = (if truthy body then Some (json_dumps w body) else None)
      in \<lparr>req_method = method, req_url = url, req_headers = headers api_key,
          req_data = data\<rparr>)"

definition request ::
  "world \<Rightarrow> string \<Rightarrow> string \<Rightarrow> string \<Rightarrow> pyval \<Rightarrow> (halt + pyval) \<times> event list" where
  "request w api_key method path body =
     (let req = build_request w api_key method path body
      in ((case urlopen w req 60 of
             Response parsed \<Rightarrow>
               (case parsed of
                  None \<Rightarrow> Inl (Uncaught ''JSONDecodeError'')
                | Some v \<Rightarrow> Inr v)
           | HTTPError c reason parsed \<Rightarrow> on_http_error c reason parsed
           | URLError k reason \<Rightarrow>
               die \<lparr>origin = NETWORK, message = PyStr ''Could not reach the API'',
                    code = PyNone, detail = PyStr reason, field = PyNone,
                    http_status = None\<rparr>
           | TimeoutError \<Rightarrow>
               die \<lparr>origin = NETWORK,
                    message = PyStr ''Request timed out after 60 seconds'',
                    code = PyNone, detail = PyNone, field = PyNone,
                    http_status = None\<rparr>
           | OtherException n \<Rightarrow> Inl (Uncaught n)),
          [UrlOpen req]))"

subsection \<open>Base64\<close>

text \<open>
  \<^verbatim>\<open>base64.b64encode\<close>: the standard alphabet, three bytes to four characters, the last
  group padded with \<^verbatim>\<open>=\<close>.
\<close>

definition b64char :: "nat \<Rightarrow> char" where
  "b64char n =
     ''ABCDEFGHIJKLMNOPQRSTUVWXYZabcdefghijklmnopqrstuvwxyz0123456789+/'' ! n"

fun b64encode :: "byte list \<Rightarrow> string" where
  "b64encode [] = []"
| "b64encode [a] =
     [b64char (unat a div 4), b64char (unat a mod 4 * 16), CHR ''='', CHR ''='']"
| "b64encode [a, b] =
     [b64char (unat a div 4),
      b64char (unat a mod 4 * 16 + unat b div 16),
      b64char (unat b mod 16 * 4), CHR ''='']"
| "b64encode (a # b # c # rest) =
     [b64char (unat a div 4),
      b64char (unat a mod 4 * 16 + unat b div 16),
      b64char (unat b mod 16 * 4 + unat c div 64),
      b64char (unat c mod 64)] @ b64encode rest"

subsection \<open>Public methods\<close>

text \<open>Lines 157 to 169 of \<^verbatim>\<open>send_letter\<close>: the payload, with \<^verbatim>\<open>label\<close> set only when truthy.\<close>

definition send_payload ::
  "string \<Rightarrow> string \<Rightarrow> string \<Rightarrow> string \<Rightarrow> string \<Rightarrow> string \<Rightarrow> string \<Rightarrow> string option
     \<Rightarrow> (string \<times> pyval) list" where
  "send_payload pdf_b64 name street zip_code city country letter_type label =
     (let payload =
            [(''pdf'', PyStr pdf_b64),
             (''recipient'',
                PyDict [(''name'', PyStr name), (''street'', PyStr street),
                        (''zip'', PyStr zip_code), (''city'', PyStr city),
                        (''country'', PyStr country)]),
             (''type'', PyStr letter_type)]
      in (case label of
            None \<Rightarrow> payload
          | Some l \<Rightarrow> if l \<noteq> [] then AList.update ''label'' (PyStr l) payload else payload))"

definition send_letter ::
  "world \<Rightarrow> string \<Rightarrow> string \<Rightarrow> string \<Rightarrow> string \<Rightarrow> string \<Rightarrow> string \<Rightarrow> string \<Rightarrow> string
     \<Rightarrow> string option \<Rightarrow> (halt + pyval) \<times> event list" where
  "send_letter w api_key pdf_path name street zip_code city country letter_type label =
     (case node_exists (fs w pdf_path) of
        StatRaises n \<Rightarrow> (Inl (Uncaught n), [])
      | Answer False \<Rightarrow> (die_local (''File not found: '' @ pdf_path) PyNone, [])
      | Answer True \<Rightarrow>
          (case node_is_file (fs w pdf_path) of
             StatRaises n \<Rightarrow> (Inl (Uncaught n), [])
           | Answer False \<Rightarrow> (die_local (''Not a file: '' @ pdf_path) PyNone, [])
           | Answer True \<Rightarrow>
               (case node_read (fs w pdf_path) of
                  PermissionError \<Rightarrow>
                    (die_local (''Permission denied: '' @ pdf_path) PyNone, [])
                | OSError e \<Rightarrow>
                    (die_local (''Cannot read file: '' @ pdf_path) (PyStr e), [])
                | Bytes pdf_bytes \<Rightarrow>
                    (let pdf_b64 = b64encode pdf_bytes;
                         payload =
                           send_payload pdf_b64 name street zip_code city country
                             letter_type label;
                         (r, evs) = request w api_key ''POST'' ''/letters'' (PyDict payload)
                     in (r, Base64Encode # evs)))))"

definition get_letter :: "world \<Rightarrow> string \<Rightarrow> string \<Rightarrow> (halt + pyval) \<times> event list" where
  "get_letter w api_key letter_id = request w api_key ''GET'' (''/letters/'' @ letter_id) PyNone"

definition list_letters :: "world \<Rightarrow> string \<Rightarrow> (halt + pyval) \<times> event list" where
  "list_letters w api_key = request w api_key ''GET'' ''/letters'' PyNone"

definition get_credits :: "world \<Rightarrow> string \<Rightarrow> (halt + pyval) \<times> event list" where
  "get_credits w api_key = request w api_key ''GET'' ''/credits'' PyNone"

section \<open>API key resolution\<close>

text \<open>
  The characters below 256 for which \<^verbatim>\<open>str.isspace\<close> holds; \<^verbatim>\<open>str.strip()\<close> removes them
  from both ends.
\<close>

definition is_space :: "char \<Rightarrow> bool" where
  "is_space c =
     (c \<in> set [CHR 0x09, CHR 0x0A, CHR 0x0B, CHR 0x0C, CHR 0x0D, CHR 0x1C, CHR 0x1D,
                CHR 0x1E, CHR 0x1F, CHR 0x20, CHR 0x85, CHR 0xA0])"

definition strip_where :: "(char \<Rightarrow> bool) \<Rightarrow> string \<Rightarrow> string" where
  "strip_where P s = rev (dropWhile P (rev (dropWhile P s)))"

definition strip :: "string \<Rightarrow> string" where
  "strip s = strip_where is_space s"

text \<open>\<^verbatim>\<open>s.strip(c)\<close> for a one-character argument.\<close>

definition strip_char :: "char \<Rightarrow> string \<Rightarrow> string" where
  "strip_char c s = strip_where (\<lambda>x. x = c) s"

definition startswith :: "string \<Rightarrow> string \<Rightarrow> bool" where
  "startswith s p = (take (length p) s = p)"

text \<open>\<^verbatim>\<open>s.split(sep, 1)\<close> for a one-character separator: at most one split, at the first
  occurrence.\<close>

definition split1 :: "char \<Rightarrow> string \<Rightarrow> string list" where
  "split1 sep s =
     (case dropWhile (\<lambda>c. c \<noteq> sep) s of
        [] \<Rightarrow> [s]
      | _ # r \<Rightarrow> [takeWhile (\<lambda>c. c \<noteq> sep) s, r])"

text \<open>
  \<^verbatim>\<open>str.splitlines\<close>: the line boundaries below 256 are line feed, carriage return (one
  boundary together with a following line feed), vertical tab, form feed, the file, group
  and record separators and next line. The boundaries are dropped; a text that ends in a
  boundary has no empty last line.
\<close>

definition is_linebreak :: "char \<Rightarrow> bool" where
  "is_linebreak c =
     (c \<in> set [CHR 0x0A, CHR 0x0B, CHR 0x0C, CHR 0x0D, CHR 0x1C, CHR 0x1D, CHR 0x1E,
                CHR 0x85])"

fun splitlines_from :: "string \<Rightarrow> string \<Rightarrow> string list" where
  "splitlines_from acc [] = (if acc = [] then [] else [rev acc])"
| "splitlines_from acc [c] =
     (if is_linebreak c then [rev acc] else [rev (c # acc)])"
| "splitlines_from acc (c # d # cs) =
     (if c = CHR 0x0D \<and> d = CHR 0x0A then rev acc # splitlines_from [] cs
      else if is_linebreak c then rev acc # splitlines_from [] (d # cs)
      else splitlines_from (c # acc) (d # cs))"

definition splitlines :: "string \<Rightarrow> string list" where
  "splitlines s = splitlines_from [] s"

text \<open>
  The loop over the lines of the secrets file: the first line that, stripped, starts with
  \<^verbatim>\<open>AGENTIC_LETTERS_API_KEY=\<close> and has a non-empty value gives the key. The index
  \<^verbatim>\<open>[1]\<close> raises \<^verbatim>\<open>IndexError\<close> on a list of one element.
\<close>

fun scan_lines :: "string list \<Rightarrow> halt + string option" where
  "scan_lines [] = Inr None"
| "scan_lines (l # ls) =
     (let line = strip l
      in if startswith line (ENV_VAR @ ''='')
         then (case split1 (CHR ''='') line of
                 [_, r] \<Rightarrow>
                   (let val = strip_char (CHR 0x27) (strip_char (CHR 0x22) (strip r))
                    in if val \<noteq> [] then Inr (Some val) else scan_lines ls)
               | _ \<Rightarrow> Inl (Uncaught ''IndexError''))
         else scan_lines ls)"

text \<open>\<^verbatim>\<open>Path.read_text\<close>: an exception it raises is caught nowhere.\<close>

definition read_text :: "world \<Rightarrow> string \<Rightarrow> halt + string" where
  "read_text w p =
     (case node_read (fs w p) of
        Bytes b \<Rightarrow>
          (case decode_text w b of
             None \<Rightarrow> Inl (Uncaught ''UnicodeDecodeError'')
           | Some t \<Rightarrow> Inr t)
      | PermissionError \<Rightarrow> Inl (Uncaught ''PermissionError'')
      | OSError e \<Rightarrow> Inl (Uncaught ''OSError''))"

definition no_key_detail :: "world \<Rightarrow> string" where
  "no_key_detail w =
     ''Set '' @ ENV_VAR @ '' in environment or in '' @ ENV_FILE w
       @ ''. Get a key at https://agentic-letters.com/buy''"

definition load_api_key :: "world \<Rightarrow> halt + string" where
  "load_api_key w =
     (let key = environ w ENV_VAR;
          no_key = die_local ''No API key found'' (PyStr (no_key_detail w))
      in (case key of
            Some (c # cs) \<Rightarrow> Inr (strip (c # cs))
          | _ \<Rightarrow>
              (case node_exists (fs w (ENV_FILE w)) of
                 StatRaises n \<Rightarrow> Inl (Uncaught n)
               | Answer True \<Rightarrow>
                   (case read_text w (ENV_FILE w) of
                      Inl h \<Rightarrow> Inl h
                    | Inr text \<Rightarrow>
                        (case scan_lines (splitlines text) of
                           Inl h \<Rightarrow> Inl h
                         | Inr (Some val) \<Rightarrow> Inr val
                         | Inr None \<Rightarrow> no_key))
               | Answer False \<Rightarrow> no_key)))"

section \<open>CLI\<close>

text \<open>
  What \<^verbatim>\<open>parse_args\<close> hands to \<^verbatim>\<open>main\<close>: one of the four subcommands, which the parser
  requires, with its arguments. The options \<^verbatim>\<open>--country\<close>, \<^verbatim>\<open>--type\<close> and \<^verbatim>\<open>--label\<close>
  may be missing on the command line.
\<close>

record send_options =
  opt_pdf :: string
  opt_name :: string
  opt_street :: string
  opt_zip :: string
  opt_city :: string
  opt_country :: "string option"
  opt_type :: "string option"
  opt_label :: "string option"

datatype command = CmdSend send_options | CmdStatus string | CmdList | CmdCredits

text \<open>The defaults that \<^verbatim>\<open>build_parser\<close> declares for \<^verbatim>\<open>--country\<close> and \<^verbatim>\<open>--type\<close>.\<close>

definition arg_country :: "send_options \<Rightarrow> string" where
  "arg_country a = (case opt_country a of None \<Rightarrow> ''DE'' | Some c \<Rightarrow> c)"

definition arg_letter_type :: "send_options \<Rightarrow> string" where
  "arg_letter_type a = (case opt_type a of None \<Rightarrow> ''standard'' | Some t \<Rightarrow> t)"

text \<open>How the process ends: exit status, standard output and standard error.\<close>

datatype process_end = Exit int string string

text \<open>
  The end of \<^verbatim>\<open>main\<close>.
  \<^item> The operation returned: \<^verbatim>\<open>print(json.dumps(result, indent=2, ensure_ascii=False))\<close>
    and a return, which is exit status 0; when the \<^verbatim>\<open>print\<close> raises, nothing is written to
    standard output and the exception is caught nowhere.
  \<^item> The operation died: the \<^verbatim>\<open>print\<close> to standard error and \<^verbatim>\<open>sys.exit(1)\<close> of
    \<^verbatim>\<open>die\<close>; an exception of that \<^verbatim>\<open>print\<close> leaves every place where \<^verbatim>\<open>die\<close> is called
    and is caught nowhere.
  \<^item> An exception that is caught nowhere: the interpreter writes the traceback to
    standard error and the exit status is 1.
\<close>

definition uncaught :: "world \<Rightarrow> string \<Rightarrow> process_end" where
  "uncaught w n = Exit 1 [] (py_traceback w n)"

definition finish :: "world \<Rightarrow> halt + pyval \<Rightarrow> process_end" where
  "finish w r =
     (case r of
        Inr result \<Rightarrow>
          (let text = json_dumps_indent w result @ newline
           in case stdout_write w text of
                Written \<Rightarrow> Exit 0 text []
              | WriteRaises n \<Rightarrow> uncaught w n)
      | Inl (Died err) \<Rightarrow>
          (let text = format (py_repr w) err @ newline
           in case stderr_write w text of
                Written \<Rightarrow> Exit 1 [] text
              | WriteRaises n \<Rightarrow> uncaught w n)
      | Inl (Uncaught n) \<Rightarrow> uncaught w n)"

definition dispatch :: "world \<Rightarrow> string \<Rightarrow> command \<Rightarrow> (halt + pyval) \<times> event list" where
  "dispatch w api_key cmd =
     (case cmd of
        CmdSend a \<Rightarrow>
          send_letter w api_key (opt_pdf a) (opt_name a) (opt_street a) (opt_zip a)
            (opt_city a) (arg_country a) (arg_letter_type a) (opt_label a)
      | CmdStatus letter_id \<Rightarrow> get_letter w api_key letter_id
      | CmdList \<Rightarrow> list_letters w api_key
      | CmdCredits \<Rightarrow> get_credits w api_key)"

text \<open>\<^verbatim>\<open>main\<close> up to its last line: the key, the client, the operation.\<close>

definition run :: "world \<Rightarrow> command \<Rightarrow> (halt + pyval) \<times> event list" where
  "run w cmd =
     (case load_api_key w of
        Inl h \<Rightarrow> (Inl h, [])
      | Inr api_key \<Rightarrow> dispatch w api_key cmd)"

definition main :: "world \<Rightarrow> command \<Rightarrow> process_end \<times> event list" where
  "main w cmd = (let (r, evs) = run w cmd in (finish w r, evs))"

section \<open>Concrete environments\<close>

text \<open>
  An environment to evaluate the client in: the key is in the environment variable,
  \<^verbatim>\<open>/tmp/letter.pdf\<close> is a readable file holding the two bytes of \<^verbatim>\<open>Hi\<close>, \<^verbatim>\<open>/tmp\<close> is a
  directory, \<^verbatim>\<open>/srv/private.pdf\<close> and \<^verbatim>\<open>/mnt/broken.pdf\<close> are files that cannot be read,
  \<^verbatim>\<open>/root/secret.pdf\<close> is a file in a directory that the user may not search, no other
  path exists, and the network ends every call with the given outcome. Both streams take
  every text. The library functions are stand-ins that give a fixed text.
\<close>

definition demo_fs :: "string \<Rightarrow> fnode" where
  "demo_fs p =
     (if p = ''/tmp/letter.pdf''
      then \<lparr>node_exists = Answer True, node_is_file = Answer True,
            node_read = Bytes [0x48, 0x69]\<rparr>
      else if p = ''/tmp''
      then \<lparr>node_exists = Answer True, node_is_file = Answer False,
            node_read = OSError ''[Errno 21] Is a directory''\<rparr>
      else if p = ''/srv/private.pdf''
      then \<lparr>node_exists = Answer True, node_is_file = Answer True,
            node_read = PermissionError\<rparr>
      else if p = ''/mnt/broken.pdf''
      then \<lparr>node_exists = Answer True, node_is_file = Answer True,
            node_read = OSError ''[Errno 5] Input/output error''\<rparr>
      else if p = ''/root/secret.pdf''
      then \<lparr>node_exists = StatRaises ''PermissionError'',
            node_is_file = StatRaises ''PermissionError'', node_read = PermissionError\<rparr>
      else \<lparr>node_exists = Answer False, node_is_file = Answer False,
            node_read = OSError ''[Errno 2] No such file or directory''\<rparr>)"

definition demo_world :: "urlopen_outcome \<Rightarrow> world" where
  "demo_world outcome =
     \<lparr>environ = (\<lambda>v. if v = ENV_VAR then Some ''sk-test'' else None),
      home = ''/home/agent'',
      fs = demo_fs,
      decode_text = (\<lambda>b. None),
      urlopen = (\<lambda>req t. outcome),
      json_dumps = (\<lambda>v. ''<json>''),
      json_dumps_indent = (\<lambda>v. ''<json>''),
      py_repr = (\<lambda>v. ''<repr>''),
      stdout_write = (\<lambda>t. Written),
      stderr_write = (\<lambda>t. Written),
      py_traceback = (\<lambda>n. ''<traceback>'')\<rparr>"

text \<open>The arguments of a \<^verbatim>\<open>send\<close> without \<^verbatim>\<open>--country\<close> and \<^verbatim>\<open>--type\<close>.\<close>

definition demo_send :: "string \<Rightarrow> string option \<Rightarrow> send_options" where
  "demo_send pdf label =
     \<lparr>opt_pdf = pdf, opt_name = ''Ada Lovelace'', opt_street = ''Main St 1'',
      opt_zip = ''10115'', opt_city = ''Berlin'', opt_country = None, opt_type = None,
      opt_label = label\<rparr>"






section \<open>Properties of the request pipeline\<close>

lemma urlopen_demo_world: "urlopen (demo_world outcome) req t = outcome"
  by (simp add: demo_world_def)

text \<open>
  Claim C2, as amended. For every HTTP error response whose body parses as a JSON object,
  the call fails with a Server error whose \<open>http_status\<close> is the status code of the
  response, whose message is the \<^verbatim>\<open>error\<close> field of the body when the body has one and
  \<^verbatim>\<open>HTTP <status>\<close> otherwise, and whose code, detail and field are the \<^verbatim>\<open>code\<close>,
  \<^verbatim>\<open>detail\<close> and \<^verbatim>\<open>field\<close> fields of the body, \<^verbatim>\<open>None\<close> for a field the body lacks.
  Exactly one network call is made.
\<close>

theorem request_http_error_json_object:
  assumes "urlopen w (build_request w k m p b) 60 = HTTPError c r (Some (PyDict d))"
  shows "request w k m p b =
           (Inl (Died \<lparr>origin = SERVER,
                       message = (case map_of d ''error'' of
                                    Some v \<Rightarrow> v
                                  | None \<Rightarrow> PyStr (''HTTP '' @ str_int c)),
                       code = (case map_of d ''code'' of Some v \<Rightarrow> v | None \<Rightarrow> PyNone),
                       detail = (case map_of d ''detail'' of Some v \<Rightarrow> v | None \<Rightarrow> PyNone),
                       field = (case map_of d ''field'' of Some v \<Rightarrow> v | None \<Rightarrow> PyNone),
                       http_status = Some c\<rparr>),
            [UrlOpen (build_request w k m p b)])"
  using assms
  by (simp add: request_def Let_def on_http_error_def die_def dict_get_def
           split: option.splits)

text \<open>
  The example of the specification: HTTP 422 with the body
  \<^verbatim>\<open>{"error":"invalid zip","field":"zip"}\<close>.
\<close>

theorem request_http_error_json_object_witness:
  "request
     (demo_world (HTTPError 422 ''Unprocessable Entity''
        (Some (PyDict [(''error'', PyStr ''invalid zip''), (''field'', PyStr ''zip'')]))))
     ''sk-test'' ''GET'' ''/credits'' PyNone =
   (Inl (Died \<lparr>origin = SERVER, message = PyStr ''invalid zip'', code = PyNone,
               detail = PyNone, field = PyStr ''zip'', http_status = Some 422\<rparr>),
    [UrlOpen \<lparr>req_method = ''GET'', req_url = ''https://agentic-letters.com/api/credits'',
              req_headers = [(''Authorization'', ''Bearer sk-test''),
                             (''Content-Type'', ''application/json''),
                             (''User-Agent'', ''agentic-letters-skill/1.0'')],
              req_data = None\<rparr>])"
  using request_http_error_json_object
    [of "demo_world (HTTPError 422 ''Unprocessable Entity''
           (Some (PyDict [(''error'', PyStr ''invalid zip''), (''field'', PyStr ''zip'')])))"
        "''sk-test''" "''GET''" "''/credits''" PyNone 422 "''Unprocessable Entity''"
        "[(''error'', PyStr ''invalid zip''), (''field'', PyStr ''zip'')]"]
  by (simp add: urlopen_demo_world build_request_def API_BASE_def headers_def)

text \<open>
  Claim C2, as stated, fails on a JSON body without the key \<^verbatim>\<open>error\<close>: for HTTP 422 with
  the body \<^verbatim>\<open>{"field":"zip"}\<close> the message is \<^verbatim>\<open>HTTP 422\<close>, which is no field of the
  body.
\<close>

theorem request_http_error_no_error_key:
  "fst (request
          (demo_world (HTTPError 422 ''Unprocessable Entity''
             (Some (PyDict [(''field'', PyStr ''zip'')]))))
          ''sk-test'' ''GET'' ''/credits'' PyNone) =
     Inl (Died \<lparr>origin = SERVER, message = PyStr ''HTTP 422'', code = PyNone,
                detail = PyNone, field = PyStr ''zip'', http_status = Some 422\<rparr>)
   \<and> map_of [(''field'', PyStr ''zip'')] ''error'' = None"
  by (simp add: request_def urlopen_demo_world on_http_error_def die_def dict_get_def
        str_int_def str_nat.simps digit_char_def)

text \<open>
  The two handlers for a failure of the transport: a \<^verbatim>\<open>URLError\<close> of either kind gives a
  Network error with the message \<^verbatim>\<open>Could not reach the API\<close>, a \<^verbatim>\<open>TimeoutError\<close> gives a
  Network error with the message \<^verbatim>\<open>Request timed out after 60 seconds\<close>; neither carries
  an \<open>http_status\<close>.
\<close>

lemma request_url_error:
  assumes "urlopen w (build_request w k m p b) 60 = URLError kind r"
  shows "request w k m p b =
           (Inl (Died \<lparr>origin = NETWORK, message = PyStr ''Could not reach the API'',
                       code = PyNone, detail = PyStr r, field = PyNone,
                       http_status = None\<rparr>),
            [UrlOpen (build_request w k m p b)])"
  using assms by (simp add: request_def Let_def die_def)

lemma request_timeout_error:
  assumes "urlopen w (build_request w k m p b) 60 = TimeoutError"
  shows "request w k m p b =
           (Inl (Died \<lparr>origin = NETWORK,
                       message = PyStr ''Request timed out after 60 seconds'',
                       code = PyNone, detail = PyNone, field = PyNone,
                       http_status = None\<rparr>),
            [UrlOpen (build_request w k m p b)])"
  using assms by (simp add: request_def Let_def die_def)

text \<open>
  Claim C3 at a call that does not complete within the timeout because the connection is
  not made in time: the library hands the \<^verbatim>\<open>TimeoutError\<close> over inside a \<^verbatim>\<open>URLError\<close>, the
  handler for \<^verbatim>\<open>URLError\<close> runs, and the message of the Network error is
  \<^verbatim>\<open>Could not reach the API\<close>; only the detail says \<^verbatim>\<open>timed out\<close>.
\<close>

theorem request_connect_timeout:
  "fst (request (demo_world (URLError TimedOut ''timed out''))
          ''sk-test'' ''GET'' ''/credits'' PyNone) =
     Inl (Died \<lparr>origin = NETWORK, message = PyStr ''Could not reach the API'',
                code = PyNone, detail = PyStr ''timed out'', field = PyNone,
                http_status = None\<rparr>)"
  by (simp add: request_def urlopen_demo_world die_def)

text \<open>
  Claim C4. For every HTTP error response whose body does not parse as JSON, the call
  fails with a Server error that carries the status code of the response in
  \<open>http_status\<close> and the reason phrase as detail, and neither code nor field.
\<close>

theorem request_http_error_non_json:
  assumes "urlopen w (build_request w k m p b) 60 = HTTPError c r None"
  shows "request w k m p b =
           (Inl (Died \<lparr>origin = SERVER,
                       message = PyStr (''HTTP '' @ str_int c @ '' with non-JSON response''),
                       code = PyNone, detail = PyStr r, field = PyNone,
                       http_status = Some c\<rparr>),
            [UrlOpen (build_request w k m p b)])"
  using assms by (simp add: request_def Let_def on_http_error_def die_def)

text \<open>The example of the specification: HTTP 500 with a body that is not JSON.\<close>

theorem request_http_error_non_json_witness:
  "fst (request (demo_world (HTTPError 500 ''Internal Server Error'' None))
          ''sk-test'' ''GET'' ''/letters'' PyNone) =
   Inl (Died \<lparr>origin = SERVER, message = PyStr ''HTTP 500 with non-JSON response'',
              code = PyNone, detail = PyStr ''Internal Server Error'', field = PyNone,
              http_status = Some 500\<rparr>)"
  using request_http_error_non_json
    [of "demo_world (HTTPError 500 ''Internal Server Error'' None)"
        "''sk-test''" "''GET''" "''/letters''" PyNone 500 "''Internal Server Error''"]
  by (simp add: urlopen_demo_world str_int_def str_nat.simps digit_char_def)

text \<open>
  Claim C10 at an error body that parses as JSON and has no key \<^verbatim>\<open>error\<close> because it is
  no object: for HTTP 502 with the body \<^verbatim>\<open>[]\<close> the call ends in an uncaught
  \<^verbatim>\<open>AttributeError\<close>, not in a Server error with the message \<^verbatim>\<open>HTTP 502\<close>.
\<close>

theorem request_http_error_json_list:
  "fst (request (demo_world (HTTPError 502 ''Bad Gateway'' (Some (PyList []))))
          ''sk-test'' ''GET'' ''/credits'' PyNone) =
     Inl (Uncaught ''AttributeError'')"
  by (simp add: request_def urlopen_demo_world on_http_error_def)

section \<open>Properties of sending a letter\<close>

lemma fs_demo_world: "fs (demo_world outcome) = demo_fs"
  by (simp add: demo_world_def)

text \<open>
  When both tests answer and the document does not exist, is not a regular file or
  cannot be read, the call ends in a Local error and nothing has happened before it: the
  list of effects is empty, so there was neither a base64 encoding nor a network call.
  The message names the precondition that failed.
\<close>

lemma send_letter_local_errors:
  "(node_exists (fs w pdf) = Answer False \<longrightarrow>
      send_letter w k pdf name street zip_code city country letter_type label =
        (die_local (''File not found: '' @ pdf) PyNone, []))
   \<and> (node_exists (fs w pdf) = Answer True \<and> node_is_file (fs w pdf) = Answer False \<longrightarrow>
      send_letter w k pdf name street zip_code city country letter_type label =
        (die_local (''Not a file: '' @ pdf) PyNone, []))
   \<and> (node_exists (fs w pdf) = Answer True \<and> node_is_file (fs w pdf) = Answer True
        \<and> node_read (fs w pdf) = PermissionError \<longrightarrow>
      send_letter w k pdf name street zip_code city country letter_type label =
        (die_local (''Permission denied: '' @ pdf) PyNone, []))
   \<and> (node_exists (fs w pdf) = Answer True \<and> node_is_file (fs w pdf) = Answer True
        \<and> node_read (fs w pdf) = OSError e \<longrightarrow>
      send_letter w k pdf name street zip_code city country letter_type label =
        (die_local (''Cannot read file: '' @ pdf) (PyStr e), []))"
  by (simp add: send_letter_def)

text \<open>
  Claim C1 at a document that cannot be read because its directory may not be searched:
  \<^verbatim>\<open>Path.exists\<close> raises \<^verbatim>\<open>PermissionError\<close>, no handler is around the test, and the call
  ends in the uncaught exception, not in a Local error.
\<close>

theorem send_letter_unsearchable_directory:
  "send_letter (demo_world (Response (Some (PyDict [])))) ''sk-test'' ''/root/secret.pdf''
     ''Ada'' ''Main St 1'' ''10115'' ''Berlin'' ''DE'' ''standard'' None =
     (Inl (Uncaught ''PermissionError''), [])"
  by (simp add: send_letter_def fs_demo_world demo_fs_def)

text \<open>
  Claim C5. When the document of a \<^verbatim>\<open>send\<close> exists, is a regular file and is read, the
  program encodes it and makes one network call: a POST to \<^verbatim>\<open>/letters\<close> whose data is the
  JSON text of the payload with the keys \<^verbatim>\<open>pdf\<close> (the base64 text of the bytes),
  \<^verbatim>\<open>recipient\<close> (name, street, zip, city, country) and \<^verbatim>\<open>type\<close>, followed by \<^verbatim>\<open>label\<close>
  when a non-empty label was given. The country is \<^verbatim>\<open>DE\<close> and the type \<^verbatim>\<open>standard\<close> when
  the command line does not give them.
\<close>

theorem send_letter_request_body:
  assumes "node_exists (fs w (opt_pdf a)) = Answer True"
    and "node_is_file (fs w (opt_pdf a)) = Answer True"
    and "node_read (fs w (opt_pdf a)) = Bytes bs"
  shows "snd (dispatch w k (CmdSend a)) =
           [Base64Encode,
            UrlOpen \<lparr>req_method = ''POST'', req_url = API_BASE @ ''/letters'',
                     req_headers = headers k,
                     req_data = Some (json_dumps w (PyDict
                       ([(''pdf'', PyStr (b64encode bs)),
                         (''recipient'',
                            PyDict [(''name'', PyStr (opt_name a)),
                                    (''street'', PyStr (opt_street a)),
                                    (''zip'', PyStr (opt_zip a)),
                                    (''city'', PyStr (opt_city a)),
                                    (''country'',
                                       PyStr (case opt_country a of
                                                None \<Rightarrow> ''DE'' | Some c \<Rightarrow> c))]),
                         (''type'',
                            PyStr (case opt_type a of
                                     None \<Rightarrow> ''standard'' | Some t \<Rightarrow> t))]
                        @ (case opt_label a of
                             None \<Rightarrow> []
                           | Some l \<Rightarrow> if l = [] then [] else [(''label'', PyStr l)]))))\<rparr>]"
  using assms
  by (simp add: dispatch_def send_letter_def send_payload_def request_def build_request_def
        arg_country_def arg_letter_type_def Let_def split: option.splits prod.splits)

theorem send_letter_request_body_witness:
  "snd (dispatch (demo_world (Response (Some (PyDict [(''id'', PyStr ''L-1'')]))))
          ''sk-test'' (CmdSend (demo_send ''/tmp/letter.pdf'' None))) =
     [Base64Encode,
      UrlOpen (build_request (demo_world (Response (Some (PyDict [(''id'', PyStr ''L-1'')]))))
                 ''sk-test'' ''POST'' ''/letters''
                 (PyDict [(''pdf'', PyStr ''SGk=''),
                          (''recipient'',
                             PyDict [(''name'', PyStr ''Ada Lovelace''),
                                     (''street'', PyStr ''Main St 1''),
                                     (''zip'', PyStr ''10115''),
                                     (''city'', PyStr ''Berlin''),
                                     (''country'', PyStr ''DE'')]),
                          (''type'', PyStr ''standard'')]))]"
  using send_letter_request_body
    [of "demo_world (Response (Some (PyDict [(''id'', PyStr ''L-1'')])))"
        "demo_send ''/tmp/letter.pdf'' None" "[0x48, 0x69]" "''sk-test''"]
  by (simp add: fs_demo_world demo_fs_def demo_send_def b64char_def build_request_def
        API_BASE_def)

text \<open>
  Claim C6. The payload that a \<^verbatim>\<open>send\<close> puts into its request has the key \<^verbatim>\<open>label\<close> if
  and only if a label was given and is not empty, and then the key holds that label. A
  request built without a label has no such key.
\<close>

theorem send_letter_label_key:
  assumes "node_exists (fs w pdf) = Answer True" and "node_is_file (fs w pdf) = Answer True"
    and "node_read (fs w pdf) = Bytes bs"
  shows "snd (send_letter w k pdf name street zip_code city country letter_type label) =
           [Base64Encode,
            UrlOpen (build_request w k ''POST'' ''/letters''
              (PyDict (send_payload (b64encode bs) name street zip_code city country
                         letter_type label)))]
         \<and> (''label'' \<in> fst ` set (send_payload (b64encode bs) name street zip_code city
                                     country letter_type label)
              \<longleftrightarrow> (\<exists>l. label = Some l \<and> l \<noteq> []))
         \<and> (\<forall>l. label = Some l \<and> l \<noteq> [] \<longrightarrow>
               map_of (send_payload (b64encode bs) name street zip_code city country
                         letter_type label) ''label'' = Some (PyStr l))"
  using assms
  by (auto simp: send_letter_def send_payload_def request_def Let_def
        split: option.splits prod.splits)


theorem send_letter_label_key_witness:
  "''label'' \<notin> fst ` set (send_payload (b64encode [0x48, 0x69]) ''Ada'' ''Main St 1''
                             ''10115'' ''Berlin'' ''DE'' ''standard'' None)
   \<and> ''label'' \<notin> fst ` set (send_payload (b64encode [0x48, 0x69]) ''Ada'' ''Main St 1''
                             ''10115'' ''Berlin'' ''DE'' ''standard'' (Some []))
   \<and> map_of (send_payload (b64encode [0x48, 0x69]) ''Ada'' ''Main St 1''
               ''10115'' ''Berlin'' ''DE'' ''standard'' (Some ''inv-7'')) ''label''
       = Some (PyStr ''inv-7'')"
  using
    send_letter_label_key
      [of "demo_world TimeoutError" "''/tmp/letter.pdf''" "[0x48, 0x69]" "''sk-test''"
          "''Ada''" "''Main St 1''" "''10115''" "''Berlin''" "''DE''" "''standard''" None]
    send_letter_label_key
      [of "demo_world TimeoutError" "''/tmp/letter.pdf''" "[0x48, 0x69]" "''sk-test''"
          "''Ada''" "''Main St 1''" "''10115''" "''Berlin''" "''DE''" "''standard''" "Some []"]
    send_letter_label_key
      [of "demo_world TimeoutError" "''/tmp/letter.pdf''" "[0x48, 0x69]" "''sk-test''"
          "''Ada''" "''Main St 1''" "''10115''" "''Berlin''" "''DE''" "''standard''"
          "Some ''inv-7''"]
  by (simp add: fs_demo_world demo_fs_def)

section \<open>Properties of the whole run\<close>






lemma scan_lines_not_died: "scan_lines ls \<noteq> Inl (Died e)"
  by (induction ls) (auto simp: Let_def split: list.splits)

lemma load_api_key_died:
  assumes "load_api_key w = Inl (Died e)"
  shows "e = \<lparr>origin = LOCAL, message = PyStr ''No API key found'', code = PyNone,
              detail = PyStr (no_key_detail w), field = PyNone, http_status = None\<rparr>"
  using assms scan_lines_not_died
  by (auto simp: load_api_key_def Let_def die_local_def die_def read_text_def
        split: option.splits list.splits stat_outcome.splits bool.splits sum.splits
          read_outcome.splits)

lemma request_died:
  assumes "fst (request w k m p b) = Inl (Died e)"
  shows "origin e = SERVER
         \<or> (origin e = NETWORK \<and> code e = PyNone \<and> field e = PyNone \<and> http_status e = None)"
  using assms
  by (auto simp: request_def Let_def on_http_error_def die_def
        split: urlopen_outcome.splits option.splits pyval.splits)

lemma send_letter_died:
  assumes "fst (send_letter w k pdf n s z c co t l) = Inl (Died e)"
  shows "origin e = SERVER
         \<or> (origin e \<in> {LOCAL, NETWORK} \<and> code e = PyNone \<and> field e = PyNone
              \<and> http_status e = None)"
proof (cases "node_exists (fs w pdf) = Answer True \<and> node_is_file (fs w pdf) = Answer True
              \<and> (\<exists>bs. node_read (fs w pdf) = Bytes bs)")
  case True
  then obtain bs where "node_read (fs w pdf) = Bytes bs" by blast
  with True assms
  have "fst (request w k ''POST'' ''/letters''
               (PyDict (send_payload (b64encode bs) n s z c co t l))) = Inl (Died e)"
    by (simp add: send_letter_def Let_def split: prod.splits)
  from request_died [OF this] show ?thesis by auto
next
  case False
  with assms show ?thesis
    by (auto simp: send_letter_def die_local_def die_def
          split: stat_outcome.splits bool.splits read_outcome.splits)
qed

lemma dispatch_died:
  assumes "fst (dispatch w k cmd) = Inl (Died e)"
  shows "origin e = SERVER
         \<or> (origin e \<in> {LOCAL, NETWORK} \<and> code e = PyNone \<and> field e = PyNone
              \<and> http_status e = None)"
  using assms
  by (cases cmd)
     (auto simp: dispatch_def get_letter_def list_letters_def get_credits_def
        dest: request_died send_letter_died)

lemma load_api_key_demo_world: "load_api_key (demo_world outcome) = Inr ''sk-test''"
  by (simp add: load_api_key_def demo_world_def strip_def strip_where_def is_space_def)








text \<open>
  What the amended claim leaves out: a result that cannot be written to standard output.
  The \<^verbatim>\<open>print\<close> raises, standard output stays empty and the exit status is 1, although the
  operation returned.
\<close>

lemma main_stdout_raises:
  "fst (main ((demo_world (Response (Some (PyDict [(''credits'', PyInt 5)]))))
               \<lparr>stdout_write := (\<lambda>t. WriteRaises ''UnicodeEncodeError'')\<rparr>) CmdCredits) =
     Exit 1 [] ''<traceback>''"
  by (simp add: main_def finish_def uncaught_def run_def load_api_key_def dispatch_def
        get_credits_def request_def build_request_def demo_world_def strip_def
        strip_where_def is_space_def ENV_VAR_def)

text \<open>
  Claim C9. Every classified error that a run of the program can end in, whatever the
  environment and the command: if its origin is Local it has no code, no field and no
  http_status; and an error that has one of the three is a Server error.
\<close>

theorem local_errors_carry_no_server_fields:
  assumes "fst (run w cmd) = Inl (Died e)"
  shows "(origin e = LOCAL \<longrightarrow> code e = PyNone \<and> field e = PyNone \<and> http_status e = None)
         \<and> (code e \<noteq> PyNone \<or> field e \<noteq> PyNone \<or> http_status e \<noteq> None
              \<longrightarrow> origin e = SERVER)"
proof (cases "load_api_key w")
  case (Inl h)
  with assms have "load_api_key w = Inl (Died e)" by (simp add: run_def)
  from load_api_key_died [OF this] show ?thesis by simp
next
  case (Inr k)
  with assms have "fst (dispatch w k cmd) = Inl (Died e)" by (simp add: run_def)
  from dispatch_died [OF this] show ?thesis by auto
qed


theorem local_errors_carry_no_server_fields_witness:
  "fst (run (demo_world TimeoutError) (CmdSend (demo_send ''/tmp'' None))) =
     Inl (Died \<lparr>origin = LOCAL, message = PyStr ''Not a file: /tmp'', code = PyNone,
                detail = PyNone, field = PyNone, http_status = None\<rparr>)
   \<and> fst (run (demo_world (HTTPError 404 ''Not Found''
                  (Some (PyDict [(''error'', PyStr ''no such letter''),
                                 (''code'', PyStr ''not_found'')]))))
             (CmdStatus ''L-9'')) =
     Inl (Died \<lparr>origin = SERVER, message = PyStr ''no such letter'',
                code = PyStr ''not_found'', detail = PyNone, field = PyNone,
                http_status = Some 404\<rparr>)"
  using
    local_errors_carry_no_server_fields
      [of "demo_world TimeoutError" "CmdSend (demo_send ''/tmp'' None)"
          "\<lparr>origin = LOCAL, message = PyStr ''Not a file: /tmp'', code = PyNone,
            detail = PyNone, field = PyNone, http_status = None\<rparr>"]
    local_errors_carry_no_server_fields
      [of "demo_world (HTTPError 404 ''Not Found''
              (Some (PyDict [(''error'', PyStr ''no such letter''),
                             (''code'', PyStr ''not_found'')])))"
          "CmdStatus ''L-9''"
          "\<lparr>origin = SERVER, message = PyStr ''no such letter'',
            code = PyStr ''not_found'', detail = PyNone, field = PyNone,
            http_status = Some 404\<rparr>"]
  by (simp add: run_def load_api_key_demo_world dispatch_def send_letter_def get_letter_def
        demo_send_def fs_demo_world demo_fs_def die_local_def die_def request_def
        urlopen_demo_world on_http_error_def dict_get_def)

section \<open>Properties of the key resolution\<close>




lemma ENV_VAR_no_eq: "x \<in> set ENV_VAR \<Longrightarrow> x \<noteq> CHR ''=''"
  by (auto simp: ENV_VAR_def)

lemma split1_after_ENV_VAR: "split1 (CHR ''='') (ENV_VAR @ CHR ''='' # r) = [ENV_VAR, r]"
proof -
  have "dropWhile (\<lambda>c. c \<noteq> CHR ''='') (ENV_VAR @ CHR ''='' # r) = CHR ''='' # r"
    using ENV_VAR_no_eq by (simp add: dropWhile_append2)
  moreover have "takeWhile (\<lambda>c. c \<noteq> CHR ''='') (ENV_VAR @ CHR ''='' # r) = ENV_VAR"
    using ENV_VAR_no_eq by (simp add: takeWhile_tail)
  ultimately show ?thesis by (simp add: split1_def)
qed


lemma startswith_split: "startswith s p \<Longrightarrow> s = p @ drop (length p) s"
  by (metis append_take_drop_id startswith_def)

lemma scan_lines_no_IndexError: "scan_lines ls \<noteq> Inl (Uncaught ''IndexError'')"
proof (induction ls)
  case Nil
  then show ?case by simp
next
  case (Cons l ls)
  show ?case
  proof (cases "startswith (strip l) (ENV_VAR @ ''='')")
    case True
    then obtain r where "strip l = ENV_VAR @ ''='' @ r"
      using startswith_split by fastforce
    with Cons True show ?thesis
      by (simp add: split1_after_ENV_VAR Let_def)
  next
    case False
    with Cons show ?thesis by simp
  qed
qed


















end
